theory Spec2Isabelle
  imports Complex_Main
begin

section \<open>Saving Planner 2.0: the model\<close>

text \<open>
  A shallow embedding of \<^verbatim>\<open>final-project/currentversion-final-project.py\<close>.

  Numbers. Python's \<^verbatim>\<open>float\<close> values are modelled by exact real numbers and Python's
  \<^verbatim>\<open>int\<close> values by \<^typ>\<open>int\<close>; rounding, overflow, \<^verbatim>\<open>inf\<close> and \<^verbatim>\<open>nan\<close> are
  outside the model. A division raises \<^verbatim>\<open>ZeroDivisionError\<close> on a zero divisor, which the
  model returns as a value.

  Effects. What the user types at an \<^verbatim>\<open>input\<close> prompt is an argument of the function
  that prompts, what is printed is returned as a report, and the file
  \<^verbatim>\<open>the-plan.txt\<close> is a component of the state.
\<close>

subsection \<open>Exceptions\<close>

datatype error = ValueError string | ZeroDivisionError

text \<open>True division of Python, \<^verbatim>\<open>a / b\<close>.\<close>

definition truediv :: "real \<Rightarrow> real \<Rightarrow> error + real" where
  "truediv a b = (if b = 0 then Inl ZeroDivisionError else Inr (a / b))"

text \<open>\<^verbatim>\<open>int(x)\<close> on a number truncates towards zero.\<close>

definition int_of_float :: "real \<Rightarrow> int" where
  "int_of_float x = (if 0 \<le> x then \<lfloor>x\<rfloor> else \<lceil>x\<rceil>)"

subsection \<open>Plan\<close>

record Plan =
  name :: string
  allowance :: real
  expenses :: real
  goal :: real
  periods :: int
  unit :: string
  multiplier :: int
  saved_so_far :: real
  days_passed :: int

text \<open>\<^verbatim>\<open>Plan.__init__\<close>: the tracker fields start at zero.\<close>

definition Plan_init :: "string \<Rightarrow> real \<Rightarrow> real \<Rightarrow> real \<Rightarrow> int \<Rightarrow> string \<Rightarrow> int \<Rightarrow> Plan" where
  "Plan_init n a e g p u m =
     \<lparr>name = n, allowance = a, expenses = e, goal = g, periods = p, unit = u,
      multiplier = m, saved_so_far = 0, days_passed = 0\<rparr>"

definition net :: "Plan \<Rightarrow> real" where
  "net p = allowance p - expenses p"





text \<open>
  \<^verbatim>\<open>int(self.periods * self.multiplier)\<close>: both factors are integers wherever a plan is
  made (\<^verbatim>\<open>int(duration)\<close>, \<^verbatim>\<open>math.ceil(...)\<close>, \<^verbatim>\<open>int(periods)\<close>), so the
  conversion changes nothing.
\<close>

definition total_days :: "Plan \<Rightarrow> int" where
  "total_days p = periods p * multiplier p"

definition daily_needed :: "Plan \<Rightarrow> real" where
  "daily_needed p =
     (let remaining = goal p - saved_so_far p;
          remaining_days = total_days p - days_passed p
      in if remaining_days \<le> 0 then 0
         else if remaining < 0 then - (saved_so_far p - goal p) / real_of_int remaining_days
         else remaining / real_of_int remaining_days)"

subsection \<open>Text\<close>

text \<open>
  \<^verbatim>\<open>str.strip()\<close> removes the white space at both ends, \<^verbatim>\<open>str.split("|")\<close> cuts at
  every separator, \<^verbatim>\<open>str.lower()\<close> maps the capital letters (the answers it is applied to
  are only compared with \<^verbatim>\<open>"y"\<close> and \<^verbatim>\<open>"n"\<close>).
\<close>

definition is_space :: "char \<Rightarrow> bool" where
  "is_space c = (c \<in> set [CHR '' '', CHR 0x09, CHR 0x0A, CHR 0x0B, CHR 0x0C, CHR 0x0D,
                            CHR 0x1C, CHR 0x1D, CHR 0x1E, CHR 0x1F])"

definition strip :: "string \<Rightarrow> string" where
  "strip s = rev (dropWhile is_space (rev (dropWhile is_space s)))"

fun split_acc :: "char \<Rightarrow> string \<Rightarrow> string \<Rightarrow> string list" where
  "split_acc sep acc [] = [rev acc]"
| "split_acc sep acc (c # cs) =
     (if c = sep then rev acc # split_acc sep [] cs else split_acc sep (c # acc) cs)"

definition split :: "char \<Rightarrow> string \<Rightarrow> string list" where
  "split sep s = split_acc sep [] s"

definition lower_char :: "char \<Rightarrow> char" where
  "lower_char c =
     (case map_of (zip ''ABCDEFGHIJKLMNOPQRSTUVWXYZ'' ''abcdefghijklmnopqrstuvwxyz'') c of
        None \<Rightarrow> c | Some d \<Rightarrow> d)"

definition lower :: "string \<Rightarrow> string" where
  "lower s = map lower_char s"

subsection \<open>The builtin conversions\<close>

text \<open>
  The builtins \<^verbatim>\<open>float(s)\<close> and \<^verbatim>\<open>int(s)\<close> on a string, and the formatting of a number
  inside an f-string, are not code of the program: the functions that call them take them
  as arguments (\<open>to_float\<close>, \<open>to_int\<close>, \<open>fmt_float\<close>, \<open>fmt_int\<close>). A conversion that raises
  \<^verbatim>\<open>ValueError\<close> returns \<open>None\<close>.

  To run the model on concrete text, \<open>dec_float\<close> and \<open>dec_int\<close> read plain decimal
  notation (a sign, digits, and for \<open>dec_float\<close> a fraction), on which they agree with
  the builtins.
\<close>

definition digit_of :: "char \<Rightarrow> nat option" where
  "digit_of c =
     (let k = (of_char c :: nat) in if 48 \<le> k \<and> k \<le> 57 then Some (k - 48) else None)"

fun digits_val :: "nat \<Rightarrow> string \<Rightarrow> nat option" where
  "digits_val acc [] = Some acc"
| "digits_val acc (c # cs) =
     (case digit_of c of None \<Rightarrow> None | Some d \<Rightarrow> digits_val (10 * acc + d) cs)"

definition sign_body :: "string \<Rightarrow> bool \<times> string" where
  "sign_body s =
     (case s of
        [] \<Rightarrow> (False, s)
      | c # r \<Rightarrow> if c = CHR ''-'' then (True, r) else if c = CHR ''+'' then (False, r)
                 else (False, s))"

definition dec_int :: "string \<Rightarrow> int option" where
  "dec_int s =
     (let (neg, body) = sign_body s
      in if body = [] then None
         else case digits_val 0 body of
                None \<Rightarrow> None
              | Some n \<Rightarrow> Some (if neg then - int n else int n))"

definition dec_float :: "string \<Rightarrow> real option" where
  "dec_float s =
     (let (neg, body) = sign_body s;
          ip = takeWhile (\<lambda>c. c \<noteq> CHR ''.'') body;
          fp = drop 1 (dropWhile (\<lambda>c. c \<noteq> CHR ''.'') body)
      in if ip = [] \<and> fp = [] then None
         else case (digits_val 0 ip, digits_val 0 fp) of
                (Some i, Some f) \<Rightarrow>
                  Some ((if neg then - 1 else 1) * (real i + real f / 10 ^ length fp))
              | _ \<Rightarrow> None)"

subsection \<open>Input validation\<close>

text \<open>
  The commas and the spaces are removed, the rest is converted, and the number must be
  positive. The two messages are kept without the emoji that ends them.
\<close>

definition input_validation :: "(string \<Rightarrow> real option) \<Rightarrow> string \<Rightarrow> string \<Rightarrow> error + real" where
  "input_validation to_float val nm =
     (let val = filter (\<lambda>c. c \<noteq> CHR '' '') (filter (\<lambda>c. c \<noteq> CHR '','') val)
      in case to_float val of
           None \<Rightarrow> Inl (ValueError (nm @ '' must be a number.''))
         | Some number \<Rightarrow>
             if number \<le> 0 then Inl (ValueError (nm @ '' must be positive.''))
             else Inr number)"

subsection \<open>Plans manager\<close>

text \<open>
  \<open>plans\<close> is the dictionary of the manager, in insertion order: assigning to a key that
  is present replaces the value in place, assigning to a new key appends.
  \<open>the_plan_txt\<close> is the file \<^verbatim>\<open>the-plan.txt\<close> that the manager's methods open: \<open>None\<close>
  when it does not exist, otherwise its lines, each without its line terminator (no
  field that the program writes contains one).
\<close>

record PlansManager =
  plans :: "(string \<times> Plan) list"
  the_plan_txt :: "string list option"

definition PlansManager_init :: "string list option \<Rightarrow> PlansManager" where
  "PlansManager_init f = \<lparr>plans = [], the_plan_txt = f\<rparr>"

fun dict_set :: "'k \<Rightarrow> 'v \<Rightarrow> ('k \<times> 'v) list \<Rightarrow> ('k \<times> 'v) list" where
  "dict_set k v [] = [(k, v)]"
| "dict_set k v ((k', v') # kvs) =
     (if k' = k then (k, v) # kvs else (k', v') # dict_set k v kvs)"

text \<open>The record that both writers format: nine fields joined by \<^verbatim>\<open>|\<close>.\<close>

definition plan_line :: "(real \<Rightarrow> string) \<Rightarrow> (int \<Rightarrow> string) \<Rightarrow> Plan \<Rightarrow> string" where
  "plan_line fmt_float fmt_int p =
     name p @ ''|'' @ fmt_float (allowance p) @ ''|'' @ fmt_float (expenses p) @ ''|'' @
     fmt_float (goal p) @ ''|'' @ fmt_int (periods p) @ ''|'' @ unit p @ ''|'' @
     fmt_int (multiplier p) @ ''|'' @ fmt_float (saved_so_far p) @ ''|'' @
     fmt_int (days_passed p)"

text \<open>Mode \<^verbatim>\<open>"a"\<close>: the file is created when it is missing, and the line goes to its end.\<close>

definition write_plan_to_file ::
  "(real \<Rightarrow> string) \<Rightarrow> (int \<Rightarrow> string) \<Rightarrow> PlansManager \<Rightarrow> Plan \<Rightarrow> PlansManager" where
  "write_plan_to_file fmt_float fmt_int m p =
     m\<lparr>the_plan_txt :=
         Some ((case the_plan_txt m of None \<Rightarrow> [] | Some ls \<Rightarrow> ls)
               @ [plan_line fmt_float fmt_int p])\<rparr>"

definition save_plan ::
  "(real \<Rightarrow> string) \<Rightarrow> (int \<Rightarrow> string) \<Rightarrow> PlansManager \<Rightarrow> Plan \<Rightarrow> PlansManager" where
  "save_plan fmt_float fmt_int m p =
     write_plan_to_file fmt_float fmt_int (m\<lparr>plans := dict_set (name p) p (plans m)\<rparr>) p"

text \<open>Mode \<^verbatim>\<open>"w"\<close>: the file is replaced by one line for each plan of the dictionary.\<close>

definition write_all_plans_to_file ::
  "(real \<Rightarrow> string) \<Rightarrow> (int \<Rightarrow> string) \<Rightarrow> PlansManager \<Rightarrow> PlansManager" where
  "write_all_plans_to_file fmt_float fmt_int m =
     m\<lparr>the_plan_txt := Some (map (\<lambda>(k, p). plan_line fmt_float fmt_int p) (plans m))\<rparr>"

text \<open>
  The body of the loop of \<^verbatim>\<open>load_plans_from_file\<close> on the fields of one line, once
  there are nine of them. The conversions run in the order of the source, and the first
  that raises ends the call.
\<close>

definition could_not_convert :: error where
  "could_not_convert = ValueError ''could not convert string to a number''"

definition plan_of_parts ::
  "(string \<Rightarrow> real option) \<Rightarrow> (string \<Rightarrow> int option) \<Rightarrow> string list \<Rightarrow> error + Plan" where
  "plan_of_parts to_float to_int parts =
     (case to_float (parts ! 1) of None \<Rightarrow> Inl could_not_convert | Some a \<Rightarrow>
      case to_float (parts ! 2) of None \<Rightarrow> Inl could_not_convert | Some e \<Rightarrow>
      case to_float (parts ! 3) of None \<Rightarrow> Inl could_not_convert | Some g \<Rightarrow>
      case to_int (parts ! 4) of None \<Rightarrow> Inl could_not_convert | Some p \<Rightarrow>
      case to_int (parts ! 6) of None \<Rightarrow> Inl could_not_convert | Some m \<Rightarrow>
      case to_float (parts ! 7) of None \<Rightarrow> Inl could_not_convert | Some s \<Rightarrow>
      case to_int (parts ! 8) of None \<Rightarrow> Inl could_not_convert | Some d \<Rightarrow>
        Inr ((Plan_init (parts ! 0) a e g p (parts ! 5) m)
               \<lparr>saved_so_far := s, days_passed := d\<rparr>))"

fun load_lines ::
  "(string \<Rightarrow> real option) \<Rightarrow> (string \<Rightarrow> int option) \<Rightarrow> string list \<Rightarrow>
   (string \<times> Plan) list \<Rightarrow> error + (string \<times> Plan) list" where
  "load_lines to_float to_int [] ps = Inr ps"
| "load_lines to_float to_int (line # rest) ps =
     (let parts = split CHR ''|'' (strip line)
      in if length parts = 9 then
           (case plan_of_parts to_float to_int parts of
              Inl err \<Rightarrow> Inl err
            | Inr the_plan \<Rightarrow> load_lines to_float to_int rest (dict_set (name the_plan) the_plan ps))
         else load_lines to_float to_int rest ps)"

text \<open>
  Only \<^verbatim>\<open>FileNotFoundError\<close> is caught: the plans stay as they are. Any other exception
  leaves the method, and \<^verbatim>\<open>main\<close>, which calls it outside any handler.
\<close>

definition load_plans_from_file ::
  "(string \<Rightarrow> real option) \<Rightarrow> (string \<Rightarrow> int option) \<Rightarrow> PlansManager \<Rightarrow> error + PlansManager" where
  "load_plans_from_file to_float to_int m =
     (case the_plan_txt m of
        None \<Rightarrow> Inr m
      | Some ls \<Rightarrow>
          (case load_lines to_float to_int ls (plans m) of
             Inl err \<Rightarrow> Inl err
           | Inr ps \<Rightarrow> Inr (m\<lparr>plans := ps\<rparr>)))"

subsection \<open>The time unit\<close>

text \<open>
  The decorator \<^verbatim>\<open>with_time_unit\<close> asks for a choice until one of the four is given,
  then calls the menu function with the multiplier and the unit. \<open>choices\<close> is what the
  user types, in order; with no valid choice in it the prompt is still waiting (\<open>None\<close>).
\<close>

definition time_unit_of_choice :: "string \<Rightarrow> (string \<times> int) option" where
  "time_unit_of_choice choice =
     (if choice = ''1'' then Some (''day'', 1)
      else if choice = ''2'' then Some (''week'', 7)
      else if choice = ''3'' then Some (''month'', 30)
      else if choice = ''4'' then Some (''year'', 365)
      else None)"

fun with_time_unit ::
  "(PlansManager \<Rightarrow> int \<Rightarrow> string \<Rightarrow> 'r) \<Rightarrow> PlansManager \<Rightarrow> string list \<Rightarrow> 'r option" where
  "with_time_unit menu_func plans_manager [] = None"
| "with_time_unit menu_func plans_manager (choice # choices) =
     (case time_unit_of_choice choice of
        Some (u, m) \<Rightarrow> Some (menu_func plans_manager m u)
      | None \<Rightarrow> with_time_unit menu_func plans_manager choices)"

subsection \<open>What the user answers\<close>

text \<open>One field for each prompt of the two menus; a menu reads the fields it prompts for.\<close>

record answers =
  allowance_in :: string
  expenses_in :: string
  duration_in :: string
  goal_in :: string
  use_interest_in :: string
  rate_in :: string
  save_in :: string
  plan_name_in :: string

subsection \<open>Menu 1: check goal feasibility\<close>

text \<open>
  The \<^verbatim>\<open>try\<close> block: the four inputs are validated in order; the first
  \<^verbatim>\<open>ValueError\<close> is caught by the menu, which prints it and returns.
\<close>

definition read_check_inputs ::
  "(string \<Rightarrow> real option) \<Rightarrow> answers \<Rightarrow> error + (real \<times> real \<times> real \<times> real)" where
  "read_check_inputs to_float inp =
     (case input_validation to_float (allowance_in inp) ''Allowance'' of
        Inl err \<Rightarrow> Inl err | Inr a \<Rightarrow>
      case input_validation to_float (expenses_in inp) ''Expenses'' of
        Inl err \<Rightarrow> Inl err | Inr e \<Rightarrow>
      case input_validation to_float (duration_in inp) ''Duration'' of
        Inl err \<Rightarrow> Inl err | Inr d \<Rightarrow>
      case input_validation to_float (goal_in inp) ''Goal'' of
        Inl err \<Rightarrow> Inl err | Inr g \<Rightarrow> Inr (a, e, d, g))"

text \<open>
  What the menu prints after \<^verbatim>\<open>--- RESULT ---\<close>, with the numbers it prints:
  \<^item> \<open>Possible\<close>: \<^verbatim>\<open>required_daily/multiplier\<close>, \<^verbatim>\<open>daily_saving\<close>,
    \<^verbatim>\<open>math.floor(extra)\<close>;
  \<^item> \<open>Impossible_even_zero_expenses\<close>: \<^verbatim>\<open>math.floor(max_possible)\<close>,
    \<^verbatim>\<open>math.floor(daily_allowance)\<close>;
  \<^item> \<open>Conditionally_possible\<close>: \<^verbatim>\<open>math.ceil(needed_cut/multiplier)\<close>, and
    \<^verbatim>\<open>needed_cut\<close> itself, from which the adjusted plan is made.
\<close>

datatype feasibility =
    Possible real real int
  | Impossible_even_zero_expenses int int
  | Conditionally_possible int int

text \<open>
  The computation between the inputs and the prompts, for the multiplier \<open>m\<close>, allowance
  \<open>a\<close>, expenses \<open>e\<close>, duration \<open>d\<close> and goal \<open>g\<close>. The quotient \<^verbatim>\<open>goal / total_days\<close>
  is taken first, for \<^verbatim>\<open>required_daily\<close>, before any case is chosen.
\<close>

definition check_feasibility :: "int \<Rightarrow> real \<Rightarrow> real \<Rightarrow> real \<Rightarrow> real \<Rightarrow> error + feasibility" where
  "check_feasibility m a e d g =
     (case truediv a (real_of_int m) of Inl err \<Rightarrow> Inl err | Inr daily_allowance \<Rightarrow>
      case truediv e (real_of_int m) of Inl err \<Rightarrow> Inl err | Inr daily_expenses \<Rightarrow>
      let daily_saving = daily_allowance - daily_expenses;
          total_days = int_of_float d * m;
          total_saving_possible = daily_saving * real_of_int total_days
      in case truediv g (real_of_int total_days) of Inl err \<Rightarrow> Inl err | Inr q \<Rightarrow>
      let required_daily = \<lceil>q\<rceil>
      in if g \<le> total_saving_possible then
           (let extra = total_saving_possible - g
            in Inr (Possible (real_of_int required_daily / real_of_int m) daily_saving \<lfloor>extra\<rfloor>))
         else
           (let max_possible = daily_allowance * real_of_int total_days;
                needed_cut = \<lceil>q + daily_expenses - daily_allowance\<rceil>
            in if max_possible < g then
                 Inr (Impossible_even_zero_expenses \<lfloor>max_possible\<rfloor> \<lfloor>daily_allowance\<rfloor>)
               else
                 Inr (Conditionally_possible
                        \<lceil>real_of_int needed_cut / real_of_int m\<rceil> needed_cut)))"

text \<open>The local variables of the menu that the cases compare, as functions of the inputs.\<close>

definition total_saving_possible :: "int \<Rightarrow> real \<Rightarrow> real \<Rightarrow> real \<Rightarrow> real" where
  "total_saving_possible m a e d =
     (a / real_of_int m - e / real_of_int m) * real_of_int (int_of_float d * m)"

definition max_possible :: "int \<Rightarrow> real \<Rightarrow> real \<Rightarrow> real" where
  "max_possible m a d = a / real_of_int m * real_of_int (int_of_float d * m)"

text \<open>
  The plan that the menu offers to save: the inputs as they are when the goal is possible,
  the expenses reduced by \<^verbatim>\<open>needed_cut / multiplier\<close> when it is conditionally possible,
  none otherwise.
\<close>

definition offered_plan ::
  "string \<Rightarrow> string \<Rightarrow> int \<Rightarrow> real \<Rightarrow> real \<Rightarrow> real \<Rightarrow> real \<Rightarrow> feasibility \<Rightarrow> Plan option" where
  "offered_plan plan_name unit_name m a e d g r =
     (case r of
        Possible x y z \<Rightarrow> Some (Plan_init plan_name a e g (int_of_float d) unit_name m)
      | Impossible_even_zero_expenses x y \<Rightarrow> None
      | Conditionally_possible x needed_cut \<Rightarrow>
          (let new_expenses = e - real_of_int needed_cut / real_of_int m
           in Some (Plan_init plan_name a new_expenses g (int_of_float d) unit_name m)))"

datatype 'r report = Input_error error | Result 'r

definition menu_check_feasibility ::
  "(string \<Rightarrow> real option) \<Rightarrow> (real \<Rightarrow> string) \<Rightarrow> (int \<Rightarrow> string) \<Rightarrow> answers \<Rightarrow>
   PlansManager \<Rightarrow> int \<Rightarrow> string \<Rightarrow> error + (feasibility report \<times> PlansManager)" where
  "menu_check_feasibility to_float fmt_float fmt_int inp plans_manager m unit_name =
     (case read_check_inputs to_float inp of
        Inl err \<Rightarrow> Inr (Input_error err, plans_manager)
      | Inr (a, e, d, g) \<Rightarrow>
          (case check_feasibility m a e d g of
             Inl err \<Rightarrow> Inl err
           | Inr r \<Rightarrow>
               (case offered_plan (plan_name_in inp) unit_name m a e d g r of
                  None \<Rightarrow> Inr (Result r, plans_manager)
                | Some plan \<Rightarrow>
                    if lower (save_in inp) = ''y''
                    then Inr (Result r, save_plan fmt_float fmt_int plans_manager plan)
                    else Inr (Result r, plans_manager))))"

subsection \<open>Menu 2: time needed\<close>

text \<open>
  The \<^verbatim>\<open>while\<close> loop of the compound interest, for the goal \<open>g\<close>, the net saving \<open>nt\<close>
  of a period and the multiplier \<open>m\<close>; \<open>days\<close> is its counter \<^verbatim>\<open>total_days\<close>. The loop has no bound of its own: a run that
  never ends is \<open>None\<close>.
\<close>

partial_function (option) simulate :: "real \<Rightarrow> real \<Rightarrow> int \<Rightarrow> real \<Rightarrow> real \<Rightarrow> int \<Rightarrow> int option" where
  "simulate g nt m interest_rate total_saved days =
     (if total_saved < g
      then simulate g nt m interest_rate
             ((total_saved + nt / real_of_int m) * (1 + interest_rate / 365)) (days + 1)
      else Some days)"

definition read_time_inputs ::
  "(string \<Rightarrow> real option) \<Rightarrow> answers \<Rightarrow> error + (real \<times> real \<times> real)" where
  "read_time_inputs to_float inp =
     (case input_validation to_float (allowance_in inp) ''Allowance'' of
        Inl err \<Rightarrow> Inl err | Inr a \<Rightarrow>
      case input_validation to_float (expenses_in inp) ''Expenses'' of
        Inl err \<Rightarrow> Inl err | Inr e \<Rightarrow>
      case input_validation to_float (goal_in inp) ''Goal'' of
        Inl err \<Rightarrow> Inl err | Inr g \<Rightarrow> Inr (a, e, g))"

text \<open>
  What the menu prints: that nothing can be saved, with the cut
  \<^verbatim>\<open>(expenses - allowance) + 1\<close>, or the time needed, \<^verbatim>\<open>periods_needed\<close> and the days.
\<close>

datatype time_needed = Non_positive_net real | Time_needed int int

text \<open>
  The branch on \<^verbatim>\<open>use_interest\<close>, entered with \<open>0 < nt\<close>. Without interest the periods
  are a ceiling. With interest the rate is validated (a \<^verbatim>\<open>ValueError\<close> is caught and the
  menu returns), and the loop divides by the multiplier in its first round.
\<close>

definition compute_time_needed ::
  "(string \<Rightarrow> real option) \<Rightarrow> answers \<Rightarrow> int \<Rightarrow> real \<Rightarrow> real \<Rightarrow> (error + time_needed report) option" where
  "compute_time_needed to_float inp m nt g =
     (if lower (use_interest_in inp) = ''n'' then
        (let periods_needed = \<lceil>g / nt\<rceil>
         in Some (Inr (Result (Time_needed periods_needed (periods_needed * m)))))
      else
        (case input_validation to_float (rate_in inp) ''Interest rate'' of
           Inl err \<Rightarrow> Some (Inr (Input_error err))
         | Inr r \<Rightarrow>
             (let interest_rate = r / 100
              in if m = 0 then Some (Inl ZeroDivisionError)
                 else case simulate g nt m interest_rate 0 0 of
                        None \<Rightarrow> None
                      | Some days \<Rightarrow>
                          Some (Inr (Result (Time_needed
                                  \<lceil>real_of_int days / real_of_int m\<rceil> days))))))"

definition menu_time_needed ::
  "(string \<Rightarrow> real option) \<Rightarrow> (real \<Rightarrow> string) \<Rightarrow> (int \<Rightarrow> string) \<Rightarrow> answers \<Rightarrow>
   PlansManager \<Rightarrow> int \<Rightarrow> string \<Rightarrow> (error + (time_needed report \<times> PlansManager)) option" where
  "menu_time_needed to_float fmt_float fmt_int inp plans_manager m unit_name =
     (case read_time_inputs to_float inp of
        Inl err \<Rightarrow> Some (Inr (Input_error err, plans_manager))
      | Inr (a, e, g) \<Rightarrow>
          (let nt = a - e
           in if nt \<le> 0 then
                Some (Inr (Result (Non_positive_net ((e - a) + 1)), plans_manager))
              else
                (case compute_time_needed to_float inp m nt g of
                   None \<Rightarrow> None
                 | Some (Inl err) \<Rightarrow> Some (Inl err)
                 | Some (Inr (Input_error err)) \<Rightarrow> Some (Inr (Input_error err, plans_manager))
                 | Some (Inr (Result (Non_positive_net c))) \<Rightarrow>
                     Some (Inr (Result (Non_positive_net c), plans_manager))
                 | Some (Inr (Result (Time_needed pn days))) \<Rightarrow>
                     if lower (save_in inp) = ''y''
                     then Some (Inr (Result (Time_needed pn days),
                            save_plan fmt_float fmt_int plans_manager
                              (Plan_init (plan_name_in inp) a e g pn unit_name m)))
                     else Some (Inr (Result (Time_needed pn days), plans_manager)))))"

subsection \<open>The running total of the loop\<close>

text \<open>
  \<open>saved_after nt m interest_rate total_saved n\<close> is the value of \<^verbatim>\<open>total_saved\<close> after
  \<open>n\<close> more rounds of the loop body: the saving of a day is added, then the total is
  multiplied by the daily factor.
\<close>

fun saved_after :: "real \<Rightarrow> int \<Rightarrow> real \<Rightarrow> real \<Rightarrow> nat \<Rightarrow> real" where
  "saved_after nt m interest_rate total_saved 0 = total_saved"
| "saved_after nt m interest_rate total_saved (Suc n) =
     saved_after nt m interest_rate
       ((total_saved + nt / real_of_int m) * (1 + interest_rate / 365)) n"

subsection \<open>The invariants of a plan\<close>




section \<open>Properties\<close>

subsection \<open>The daily target\<close>

text \<open>
  C9. For every plan, with \<open>remainingDays = total_days - days_passed\<close>: \<open>daily_needed\<close> is
  \<open>0\<close> when \<open>remainingDays \<le> 0\<close>; it is the negative value
  \<open>- (saved_so_far - goal) / remainingDays\<close> when \<open>remainingDays > 0\<close> and
  \<open>saved_so_far > goal\<close>; and it is \<open>(goal - saved_so_far) / remainingDays\<close> otherwise.
\<close>

theorem daily_needed_cases:
  "(total_days p - days_passed p \<le> 0 \<longrightarrow> daily_needed p = 0) \<and>
   (0 < total_days p - days_passed p \<and> goal p < saved_so_far p \<longrightarrow>
      daily_needed p = - (saved_so_far p - goal p) / real_of_int (total_days p - days_passed p)
      \<and> daily_needed p < 0) \<and>
   (0 < total_days p - days_passed p \<and> \<not> goal p < saved_so_far p \<longrightarrow>
      daily_needed p = (goal p - saved_so_far p) / real_of_int (total_days p - days_passed p))"
  by (simp add: daily_needed_def Let_def divide_neg_pos)

theorem daily_needed_cases_witness:
  "(total_days ((Plan_init ''a'' 500 300 100 1 ''day'' 1)\<lparr>days_passed := 1\<rparr>)
      - days_passed ((Plan_init ''a'' 500 300 100 1 ''day'' 1)\<lparr>days_passed := 1\<rparr>) \<le> 0
    \<and> daily_needed ((Plan_init ''a'' 500 300 100 1 ''day'' 1)\<lparr>days_passed := 1\<rparr>) = 0)
   \<and> (goal ((Plan_init ''b'' 500 300 100 10 ''day'' 1)\<lparr>saved_so_far := 150\<rparr>)
         < saved_so_far ((Plan_init ''b'' 500 300 100 10 ''day'' 1)\<lparr>saved_so_far := 150\<rparr>)
       \<and> daily_needed ((Plan_init ''b'' 500 300 100 10 ''day'' 1)\<lparr>saved_so_far := 150\<rparr>) = - 5)
   \<and> daily_needed ((Plan_init ''c'' 500 300 100 10 ''day'' 1)\<lparr>saved_so_far := 40\<rparr>) = 6"
  using daily_needed_cases [of "(Plan_init ''a'' 500 300 100 1 ''day'' 1)\<lparr>days_passed := 1\<rparr>"]
        daily_needed_cases [of "(Plan_init ''b'' 500 300 100 10 ''day'' 1)\<lparr>saved_so_far := 150\<rparr>"]
        daily_needed_cases [of "(Plan_init ''c'' 500 300 100 10 ''day'' 1)\<lparr>saved_so_far := 40\<rparr>"]
  by (simp add: total_days_def Plan_init_def)

subsection \<open>Validated inputs and the multiplier\<close>

lemma time_unit_multiplier:
  "time_unit_of_choice choice = Some (u, m) \<Longrightarrow> m \<in> {1, 7, 30, 365}"
  by (auto simp: time_unit_of_choice_def split: if_splits)

lemma with_time_unit_multiplier:
  "with_time_unit menu_func plans_manager choices = Some res \<Longrightarrow>
   \<exists>u m. m \<in> {1, 7, 30, 365} \<and> res = menu_func plans_manager m u"
proof (induction choices)
  case Nil
  then show ?case by simp
next
  case (Cons choice choices)
  show ?case
  proof (cases "time_unit_of_choice choice")
    case None
    with Cons show ?thesis by simp
  next
    case (Some um)
    obtain u m where um: "um = (u, m)" by (cases um)
    with Some have "m \<in> {1, 7, 30, 365}" using time_unit_multiplier by blast
    moreover from Some um Cons.prems have "res = menu_func plans_manager m u" by simp
    ultimately show ?thesis by blast
  qed
qed

lemma input_validation_pos: "input_validation to_float s nm = Inr x \<Longrightarrow> 0 < x"
  by (auto simp: input_validation_def Let_def split: option.splits if_splits)

lemma read_check_inputs_pos:
  "read_check_inputs to_float inp = Inr (a, e, d, g) \<Longrightarrow> 0 < a \<and> 0 < e \<and> 0 < d \<and> 0 < g"
  by (auto simp: read_check_inputs_def split: sum.splits dest: input_validation_pos)


subsection \<open>A duration below one period\<close>

lemma int_of_float_fraction: "0 < d \<Longrightarrow> d < 1 \<Longrightarrow> int_of_float d = 0"
  by (simp add: int_of_float_def floor_eq_iff)

lemma check_feasibility_zero_days:
  "0 < d \<Longrightarrow> d < 1 \<Longrightarrow> check_feasibility m a e d g = Inl ZeroDivisionError"
  by (simp add: check_feasibility_def truediv_def int_of_float_fraction Let_def split: sum.splits)

text \<open>
  C10. The division \<^verbatim>\<open>goal / total_days\<close> is not guarded against \<open>total_days = 0\<close>:
  validation accepts any positive duration, \<^verbatim>\<open>int\<close> truncates it, so for every accepted
  duration below \<open>1\<close> the total of days is \<open>0\<close> and the menu raises
  \<^verbatim>\<open>ZeroDivisionError\<close> instead of printing a verdict.
\<close>

theorem short_duration_divides_by_zero:
  assumes "read_check_inputs to_float inp = Inr (a, e, d, g)" and "d < 1"
  shows "int_of_float d * m = 0 \<and>
         (\<forall>fmt_float fmt_int plans_manager unit_name.
            menu_check_feasibility to_float fmt_float fmt_int inp plans_manager m unit_name
              = Inl ZeroDivisionError)"
proof -
  from assms(1) have "0 < d" using read_check_inputs_pos by blast
  with assms(2) have "check_feasibility m a e d g = Inl ZeroDivisionError"
    by (simp add: check_feasibility_zero_days)
  moreover from \<open>0 < d\<close> assms(2) have "int_of_float d * m = 0"
    by (simp add: int_of_float_fraction)
  ultimately show ?thesis using assms(1)
    by (simp add: menu_check_feasibility_def)
qed

theorem short_duration_divides_by_zero_witness:
  "read_check_inputs dec_float
     \<lparr>allowance_in = ''500'', expenses_in = ''300'', duration_in = ''0.5'', goal_in = ''10,000'',
      use_interest_in = [], rate_in = [], save_in = ''y'', plan_name_in = ''p''\<rparr>
     = Inr (500, 300, 1 / 2, 10000)
   \<and> (1 / 2 :: real) < 1
   \<and> (\<forall>fmt_float fmt_int plans_manager unit_name.
        menu_check_feasibility dec_float fmt_float fmt_int
          \<lparr>allowance_in = ''500'', expenses_in = ''300'', duration_in = ''0.5'',
           goal_in = ''10,000'', use_interest_in = [], rate_in = [], save_in = ''y'',
           plan_name_in = ''p''\<rparr>
          plans_manager 1 unit_name = Inl ZeroDivisionError)"
proof -
  have r: "read_check_inputs dec_float
     \<lparr>allowance_in = ''500'', expenses_in = ''300'', duration_in = ''0.5'', goal_in = ''10,000'',
      use_interest_in = [], rate_in = [], save_in = ''y'', plan_name_in = ''p''\<rparr>
     = Inr (500, 300, 1 / 2, 10000)"
    by (simp add: read_check_inputs_def input_validation_def dec_float_def sign_body_def
        digit_of_def)
  have h: "(1 / 2 :: real) < 1" by simp
  show ?thesis using r h short_duration_divides_by_zero [OF r h, of 1] by simp
qed

subsection \<open>The three cases of the feasibility check\<close>

lemma int_of_float_ge_one: "1 \<le> d \<Longrightarrow> 1 \<le> int_of_float d"
  by (simp add: int_of_float_def le_floor_iff)

lemma check_feasibility_unfold:
  assumes "m \<noteq> 0" and "int_of_float d \<noteq> 0"
  shows "check_feasibility m a e d g =
     (if g \<le> total_saving_possible m a e d then
        Inr (Possible (real_of_int \<lceil>g / real_of_int (int_of_float d * m)\<rceil> / real_of_int m)
               (a / real_of_int m - e / real_of_int m)
               \<lfloor>total_saving_possible m a e d - g\<rfloor>)
      else if max_possible m a d < g then
        Inr (Impossible_even_zero_expenses \<lfloor>max_possible m a d\<rfloor> \<lfloor>a / real_of_int m\<rfloor>)
      else
        Inr (Conditionally_possible
               \<lceil>real_of_int \<lceil>g / real_of_int (int_of_float d * m) + e / real_of_int m - a / real_of_int m\<rceil> / real_of_int m\<rceil>
               \<lceil>g / real_of_int (int_of_float d * m) + e / real_of_int m - a / real_of_int m\<rceil>))"
  using assms
  by (simp add: check_feasibility_def truediv_def total_saving_possible_def max_possible_def Let_def)





subsection \<open>The expense cut that is reported\<close>

text \<open>
  With the day as unit, allowance 500, expenses 300, 30 days and goal 10000: the cut is \<open>\<lceil>10000 / 30 + 300 - 500\<rceil> = 134\<close>. For this unit
  the plan that is offered always reaches its goal.
\<close>

lemma daily_scenario:
  "check_feasibility 1 500 300 30 10000 = Inr (Conditionally_possible 134 134)"
  by (simp add: check_feasibility_def truediv_def int_of_float_def Let_def)

lemma daily_cut_suffices:
  assumes "1 \<le> d"
    and "check_feasibility 1 a e d g = Inr (Conditionally_possible x needed_cut)"
    and "offered_plan nm u 1 a e d g (Conditionally_possible x needed_cut) = Some p"
  shows "goal p \<le> net p * real_of_int (periods p)"
proof -
  let ?td = "real_of_int (int_of_float d)"
  have td: "0 < ?td" using int_of_float_ge_one [OF assms(1)] by simp
  have d: "int_of_float d \<noteq> 0" using td by simp
  from assms(2) have nc: "needed_cut = \<lceil>g / ?td + e - a\<rceil>"
    using check_feasibility_unfold [of 1 d a e g] d by (simp split: if_splits)
  have "g / ?td + e - a \<le> real_of_int needed_cut" unfolding nc by (rule le_of_int_ceiling)
  then have "g / ?td \<le> a - (e - real_of_int needed_cut)" by linarith
  then have "g / ?td * ?td \<le> (a - (e - real_of_int needed_cut)) * ?td"
    using td by (intro mult_right_mono) simp_all
  then have "g \<le> (a - (e - real_of_int needed_cut)) * ?td" using td by simp
  with assms(3) show ?thesis
    by (auto simp: offered_plan_def Plan_init_def net_def Let_def)
qed

text \<open>
  C2. In the conditionally possible case the cut of a day is
  \<open>\<lceil>goal / total_days + daily_expenses - daily_allowance\<rceil>\<close>; the program divides it by the
  multiplier where a cut of a day becomes a cut of the unit by multiplying. For weeks,
  allowance 700, expenses 350, 10 weeks and goal 5000: the cut of a day is 22, the program
  reports \<open>\<lceil>22 / 7\<rceil> = 4\<close> a week and offers a plan with expenses \<open>350 - 22 / 7\<close>, which
  does not reach the goal; the cut of a day taken to the week, \<open>22 * 7\<close>, does.
\<close>

theorem weekly_cut_too_small:
  "check_feasibility 7 700 350 10 5000 = Inr (Conditionally_possible 4 22) \<and>
   map_option (\<lambda>p. (expenses p, net p * real_of_int (periods p) < goal p))
     (offered_plan ''p'' ''week'' 7 700 350 10 5000 (Conditionally_possible 4 22))
     = Some (350 - 22 / 7, True) \<and>
   (700 - (350 - 22 * 7)) * 10 \<ge> (5000::real)"
  by (simp add: check_feasibility_def truediv_def int_of_float_def Let_def offered_plan_def
      Plan_init_def net_def)

subsection \<open>The loop of the compound interest\<close>

lemma simulate_rounds:
  "(\<forall>k<n. saved_after nt m r t k < g) \<Longrightarrow> \<not> saved_after nt m r t n < g \<Longrightarrow>
   simulate g nt m r t d = Some (d + int n)"
proof (induction n arbitrary: t d)
  case 0
  then show ?case by (subst simulate.simps) simp
next
  case (Suc n)
  from Suc.prems(1) have "saved_after nt m r t 0 < g" by blast
  then have t: "t < g" by simp
  have "\<forall>k<n. saved_after nt m r ((t + nt / real_of_int m) * (1 + r / 365)) k < g"
  proof (intro allI impI)
    fix k assume "k < n"
    then have "Suc k < Suc n" by simp
    with Suc.prems(1) have "saved_after nt m r t (Suc k) < g" by blast
    then show "saved_after nt m r ((t + nt / real_of_int m) * (1 + r / 365)) k < g" by simp
  qed
  moreover have "\<not> saved_after nt m r ((t + nt / real_of_int m) * (1 + r / 365)) n < g"
    using Suc.prems(2) by simp
  ultimately have "simulate g nt m r ((t + nt / real_of_int m) * (1 + r / 365)) (d + 1)
      = Some (d + 1 + int n)"
    by (rule Suc.IH)
  with t show ?case by (subst simulate.simps) simp
qed

lemma saved_after_grows:
  "0 \<le> t \<Longrightarrow> 0 < s \<Longrightarrow> 0 \<le> r \<Longrightarrow> s = nt / real_of_int m \<Longrightarrow>
   t + real n * s \<le> saved_after nt m r t n"
proof (induction n arbitrary: t)
  case 0
  then show ?case by simp
next
  case (Suc n)
  let ?t' = "(t + nt / real_of_int m) * (1 + r / 365)"
  have ts: "0 \<le> t + s" using Suc.prems by simp
  have "(t + s) * 1 \<le> (t + s) * (1 + r / 365)"
    using ts Suc.prems(3) by (intro mult_left_mono) simp_all
  then have ge: "t + s \<le> ?t'" using Suc.prems(4) by simp
  then have "0 \<le> ?t'" using ts by linarith
  then have "?t' + real n * s \<le> saved_after nt m r ?t' n"
    using Suc.prems by (intro Suc.IH) simp_all
  then have "t + s + real n * s \<le> saved_after nt m r ?t' n" using ge by linarith
  then show ?case by (simp add: algebra_simps)
qed

lemma saved_after_mono:
  "0 \<le> t1 \<Longrightarrow> t1 \<le> t2 \<Longrightarrow> 0 \<le> nt / real_of_int m \<Longrightarrow> 0 \<le> r1 \<Longrightarrow> r1 \<le> r2 \<Longrightarrow>
   saved_after nt m r1 t1 n \<le> saved_after nt m r2 t2 n"
proof (induction n arbitrary: t1 t2)
  case 0
  then show ?case by simp
next
  case (Suc n)
  let ?s = "nt / real_of_int m"
  have le: "(t1 + ?s) * (1 + r1 / 365) \<le> (t2 + ?s) * (1 + r2 / 365)"
    using Suc.prems by (intro mult_mono) simp_all
  have nn: "0 \<le> (t1 + ?s) * (1 + r1 / 365)"
    using Suc.prems by (intro mult_nonneg_nonneg) simp_all
  have "saved_after nt m r1 ((t1 + ?s) * (1 + r1 / 365)) n
      \<le> saved_after nt m r2 ((t2 + ?s) * (1 + r2 / 365)) n"
    using nn le Suc.prems(3,4,5) by (rule Suc.IH)
  then show ?case by simp
qed

lemma reaches_goal:
  assumes "0 < nt" and "0 < m" and "0 \<le> r"
  shows "\<exists>n. \<not> saved_after nt m r 0 n < g"
proof -
  let ?s = "nt / real_of_int m"
  have s: "0 < ?s" using assms by simp
  obtain n :: nat where n: "g < real n * ?s"
    using reals_Archimedean3 [OF s] by blast
  have "0 + real n * ?s \<le> saved_after nt m r 0 n"
    using s assms(3) by (intro saved_after_grows) simp_all
  with n have "\<not> saved_after nt m r 0 n < g" by linarith
  then show ?thesis ..
qed

lemma first_round:
  assumes "\<exists>n. \<not> saved_after nt m r 0 n < g"
  shows "\<exists>n. (\<forall>k<n. saved_after nt m r 0 k < g) \<and> \<not> saved_after nt m r 0 n < g"
proof -
  let ?P = "\<lambda>n. \<not> saved_after nt m r 0 n < g"
  from assms obtain n0 where "?P n0" by blast
  then have "?P (LEAST n. ?P n)" by (rule LeastI)
  moreover have "\<forall>k<(LEAST n. ?P n). \<not> ?P k" using not_less_Least by blast
  ultimately show ?thesis by blast
qed

lemma simulate_first_round:
  assumes "0 < nt" and "0 < m" and "0 \<le> r"
  shows "\<exists>n. simulate g nt m r 0 0 = Some (int n) \<and> g \<le> saved_after nt m r 0 n
           \<and> (\<forall>k<n. saved_after nt m r 0 k < g)"
proof -
  from first_round [OF reaches_goal [OF assms]]
  obtain n where n: "\<forall>k<n. saved_after nt m r 0 k < g" "\<not> saved_after nt m r 0 n < g"
    by blast
  then have "simulate g nt m r 0 0 = Some (0 + int n)" by (rule simulate_rounds)
  with n show ?thesis by (intro exI [of _ n]) simp
qed

lemma compute_time_needed_total:
  assumes "0 < nt" and "0 < m"
  shows "\<exists>out. compute_time_needed to_float inp m nt g = Some out"
proof (cases "lower (use_interest_in inp) = ''n''")
  case True
  then show ?thesis by (simp add: compute_time_needed_def Let_def)
next
  case False
  show ?thesis
  proof (cases "input_validation to_float (rate_in inp) ''Interest rate''")
    case (Inl err)
    with False show ?thesis by (simp add: compute_time_needed_def)
  next
    case (Inr r)
    then have "0 \<le> r / 100" using input_validation_pos [OF Inr] by simp
    from simulate_first_round [OF assms this, of g]
    obtain n where "simulate g nt m (r / 100) 0 0 = Some (int n)" by blast
    with False Inr assms(2) show ?thesis by (simp add: compute_time_needed_def Let_def)
  qed
qed

lemma menu_time_needed_total:
  assumes "read_time_inputs to_float inp = Inr (a, e, g)" and "e < a" and "0 < m"
  shows "\<exists>out. menu_time_needed to_float fmt_float fmt_int inp plans_manager m unit_name = Some out"
proof -
  have nt: "0 < a - e" using assms(2) by simp
  obtain out where out: "compute_time_needed to_float inp m (a - e) g = Some out"
    using compute_time_needed_total [OF nt assms(3)] by blast
  show ?thesis
    using assms(1,2) out
    by (auto simp: menu_time_needed_def Let_def split: sum.splits report.splits time_needed.splits)
qed

subsection \<open>Time needed without interest\<close>



subsection \<open>Time needed with interest\<close>

text \<open>
  C7. The simulation is monotonic in the interest rate: for a fixed net saving \<open>nt > 0\<close>,
  multiplier and goal, and validated rates \<open>p1 \<le> p2\<close> (in percent), the loop ends for
  both, and the days simulated at \<open>p2\<close> are at most the days simulated at \<open>p1\<close>; so are
  the periods that menu 2 computes from them.
\<close>

theorem interest_rate_monotone:
  assumes "0 < nt" and "0 < m"
    and "lower (use_interest_in inp1) \<noteq> ''n''" and "lower (use_interest_in inp2) \<noteq> ''n''"
    and "input_validation to_float (rate_in inp1) ''Interest rate'' = Inr p1"
    and "input_validation to_float (rate_in inp2) ''Interest rate'' = Inr p2"
    and "p1 \<le> p2"
  shows "\<exists>pn1 d1 pn2 d2.
           simulate g nt m (p1 / 100) 0 0 = Some d1 \<and>
           simulate g nt m (p2 / 100) 0 0 = Some d2 \<and>
           compute_time_needed to_float inp1 m nt g = Some (Inr (Result (Time_needed pn1 d1))) \<and>
           compute_time_needed to_float inp2 m nt g = Some (Inr (Result (Time_needed pn2 d2))) \<and>
           d2 \<le> d1 \<and> pn2 \<le> pn1"
proof -
  have r1: "0 \<le> p1 / 100" using input_validation_pos [OF assms(5)] by simp
  have r2: "0 \<le> p2 / 100" using input_validation_pos [OF assms(6)] by simp
  have r12: "p1 / 100 \<le> p2 / 100" using assms(7) by simp
  obtain n1 where n1: "simulate g nt m (p1 / 100) 0 0 = Some (int n1)"
      "g \<le> saved_after nt m (p1 / 100) 0 n1"
    using simulate_first_round [OF assms(1,2) r1] by blast
  obtain n2 where n2: "simulate g nt m (p2 / 100) 0 0 = Some (int n2)"
      "\<forall>k<n2. saved_after nt m (p2 / 100) 0 k < g"
    using simulate_first_round [OF assms(1,2) r2] by blast
  have "saved_after nt m (p1 / 100) 0 n1 \<le> saved_after nt m (p2 / 100) 0 n1"
    using assms(1,2) r1 r12 by (intro saved_after_mono) simp_all
  with n1(2) have "\<not> saved_after nt m (p2 / 100) 0 n1 < g" by linarith
  with n2(2) have le: "n2 \<le> n1" by (meson not_le)
  have m0: "m \<noteq> 0" using assms(2) by simp
  have c1: "compute_time_needed to_float inp1 m nt g
      = Some (Inr (Result (Time_needed \<lceil>real_of_int (int n1) / real_of_int m\<rceil> (int n1))))"
    using assms(3,5) m0 n1(1) by (simp add: compute_time_needed_def Let_def)
  have c2: "compute_time_needed to_float inp2 m nt g
      = Some (Inr (Result (Time_needed \<lceil>real_of_int (int n2) / real_of_int m\<rceil> (int n2))))"
    using assms(4,6) m0 n2(1) by (simp add: compute_time_needed_def Let_def)
  have "real_of_int (int n2) / real_of_int m \<le> real_of_int (int n1) / real_of_int m"
    using le assms(2) by (simp add: divide_right_mono)
  then have "\<lceil>real_of_int (int n2) / real_of_int m\<rceil> \<le> \<lceil>real_of_int (int n1) / real_of_int m\<rceil>"
    by (rule ceiling_mono)
  with n1(1) n2(1) c1 c2 le show ?thesis by simp
qed

theorem interest_rate_monotone_witness:
  "(0::real) < 200 \<and> (0::int) < 1 \<and> lower ''y'' \<noteq> ''n''
   \<and> input_validation dec_float ''5'' ''Interest rate'' = Inr 5
   \<and> input_validation dec_float ''3650'' ''Interest rate'' = Inr 3650
   \<and> (5::real) \<le> 3650
   \<and> simulate 1000 200 1 (5 / 100) 0 0 = Some 5
   \<and> simulate 1000 200 1 (3650 / 100) 0 0 = Some 4
   \<and> compute_time_needed dec_float
        \<lparr>allowance_in = [], expenses_in = [], duration_in = [], goal_in = [],
         use_interest_in = ''y'', rate_in = ''5'', save_in = [], plan_name_in = []\<rparr>
        1 200 1000 = Some (Inr (Result (Time_needed 5 5)))
   \<and> compute_time_needed dec_float
        \<lparr>allowance_in = [], expenses_in = [], duration_in = [], goal_in = [],
         use_interest_in = ''y'', rate_in = ''3650'', save_in = [], plan_name_in = []\<rparr>
        1 200 1000 = Some (Inr (Result (Time_needed 4 4)))"
proof -
  let ?i1 = "\<lparr>allowance_in = [], expenses_in = [], duration_in = [], goal_in = [],
         use_interest_in = ''y'', rate_in = ''5'', save_in = [], plan_name_in = []\<rparr>"
  let ?i2 = "\<lparr>allowance_in = [], expenses_in = [], duration_in = [], goal_in = [],
         use_interest_in = ''y'', rate_in = ''3650'', save_in = [], plan_name_in = []\<rparr>"
  have nt: "(0::real) < 200" and m: "(0::int) < 1" and le: "(5::real) \<le> 3650" by simp_all
  have l: "lower ''y'' \<noteq> ''n''" by (simp add: lower_def lower_char_def)
  then have l1: "lower (use_interest_in ?i1) \<noteq> ''n''" and l2: "lower (use_interest_in ?i2) \<noteq> ''n''"
    by simp_all
  have v1: "input_validation dec_float ''5'' ''Interest rate'' = Inr 5"
    by (simp add: input_validation_def dec_float_def sign_body_def digit_of_def)
  have v2: "input_validation dec_float ''3650'' ''Interest rate'' = Inr 3650"
    by (simp add: input_validation_def dec_float_def sign_body_def digit_of_def)
  have v1': "input_validation dec_float (rate_in ?i1) ''Interest rate'' = Inr 5" using v1 by simp
  have v2': "input_validation dec_float (rate_in ?i2) ''Interest rate'' = Inr 3650" using v2 by simp
  have s1: "simulate 1000 200 1 (5 / 100) 0 0 = Some 5" by (simp add: simulate.simps)
  have s2: "simulate 1000 200 1 (3650 / 100) 0 0 = Some 4" by (simp add: simulate.simps)
  from interest_rate_monotone [OF nt m l1 l2 v1' v2' le, of 1000]
  obtain pn1 d1 pn2 d2 where
    "simulate 1000 200 1 (5 / 100) 0 0 = Some d1"
    "simulate 1000 200 1 (3650 / 100) 0 0 = Some d2"
    "compute_time_needed dec_float ?i1 1 200 1000 = Some (Inr (Result (Time_needed pn1 d1)))"
    "compute_time_needed dec_float ?i2 1 200 1000 = Some (Inr (Result (Time_needed pn2 d2)))"
    by blast
  moreover have "compute_time_needed dec_float ?i1 1 200 1000 = Some (Inr (Result (Time_needed 5 5)))"
    using l1 v1' s1 by (simp add: compute_time_needed_def)
  moreover have "compute_time_needed dec_float ?i2 1 200 1000 = Some (Inr (Result (Time_needed 4 4)))"
    using l2 v2' s2 by (simp add: compute_time_needed_def)
  ultimately show ?thesis using nt m l v1 v2 le s1 s2 by simp
qed

text \<open>
  C8. Menu 2 reports that nothing can be saved whenever \<open>allowance \<le> expenses\<close>. With a
  positive net saving, a positive multiplier, any interest rate \<open>r \<ge> 0\<close> and a positive
  goal the loop ends: after some \<open>n > 0\<close> rounds the running total reaches the goal for
  the first time, and \<open>simulate\<close> returns \<open>n\<close>. So menu 2 returns on all validated inputs
  with \<open>allowance > expenses\<close>.
\<close>

theorem time_needed_net_and_termination:
  "(read_time_inputs to_float inp = Inr (a, e, g) \<and> a \<le> e \<longrightarrow>
      (\<forall>fmt_float fmt_int plans_manager m unit_name.
         menu_time_needed to_float fmt_float fmt_int inp plans_manager m unit_name
           = Some (Inr (Result (Non_positive_net ((e - a) + 1)), plans_manager)))) \<and>
   (0 < nt \<and> 0 < m \<and> 0 \<le> r \<and> 0 < g' \<longrightarrow>
      (\<exists>n. 0 < n \<and> simulate g' nt m r 0 0 = Some (int n) \<and>
            g' \<le> saved_after nt m r 0 n \<and> (\<forall>k<n. saved_after nt m r 0 k < g'))) \<and>
   (read_time_inputs to_float inp = Inr (a, e, g) \<and> e < a \<and> 0 < m \<longrightarrow>
      (\<forall>fmt_float fmt_int plans_manager unit_name.
         \<exists>out. menu_time_needed to_float fmt_float fmt_int inp plans_manager m unit_name
                 = Some out))"
proof (intro conjI impI allI)
  fix fmt_float fmt_int plans_manager m unit_name
  assume "read_time_inputs to_float inp = Inr (a, e, g) \<and> a \<le> e"
  then show "menu_time_needed to_float fmt_float fmt_int inp plans_manager m unit_name
           = Some (Inr (Result (Non_positive_net ((e - a) + 1)), plans_manager))"
    by (simp add: menu_time_needed_def)
next
  assume h: "0 < nt \<and> 0 < m \<and> 0 \<le> r \<and> 0 < g'"
  then obtain n where n: "simulate g' nt m r 0 0 = Some (int n)"
      "g' \<le> saved_after nt m r 0 n" "\<forall>k<n. saved_after nt m r 0 k < g'"
    using simulate_first_round [of nt m r g'] by blast
  have "n \<noteq> 0"
  proof
    assume "n = 0"
    with n(2) h show False by simp
  qed
  with n show "\<exists>n. 0 < n \<and> simulate g' nt m r 0 0 = Some (int n) \<and>
            g' \<le> saved_after nt m r 0 n \<and> (\<forall>k<n. saved_after nt m r 0 k < g')"
    by (intro exI [of _ n]) simp
next
  fix fmt_float fmt_int plans_manager unit_name
  assume "read_time_inputs to_float inp = Inr (a, e, g) \<and> e < a \<and> 0 < m"
  then show "\<exists>out. menu_time_needed to_float fmt_float fmt_int inp plans_manager m unit_name
                 = Some out"
    using menu_time_needed_total by blast
qed

theorem time_needed_net_and_termination_witness:
  "read_time_inputs dec_float
     \<lparr>allowance_in = ''300'', expenses_in = ''500'', duration_in = [], goal_in = ''1000'',
      use_interest_in = [], rate_in = [], save_in = [], plan_name_in = []\<rparr>
     = Inr (300, 500, 1000)
   \<and> (300::real) \<le> 500
   \<and> (\<forall>fmt_float fmt_int plans_manager m unit_name.
        menu_time_needed dec_float fmt_float fmt_int
          \<lparr>allowance_in = ''300'', expenses_in = ''500'', duration_in = [], goal_in = ''1000'',
           use_interest_in = [], rate_in = [], save_in = [], plan_name_in = []\<rparr>
          plans_manager m unit_name
        = Some (Inr (Result (Non_positive_net 201), plans_manager)))
   \<and> (0::real) < 200 \<and> (0::int) < 1 \<and> (0::real) \<le> 5 / 100 \<and> (0::real) < 1000
   \<and> simulate 1000 200 1 (5 / 100) 0 0 = Some 5
   \<and> read_time_inputs dec_float
       \<lparr>allowance_in = ''1000'', expenses_in = ''200'', duration_in = [], goal_in = ''5000'',
        use_interest_in = ''y'', rate_in = ''5'', save_in = [], plan_name_in = []\<rparr>
       = Inr (1000, 200, 5000)
   \<and> (200::real) < 1000
   \<and> (\<forall>fmt_float fmt_int plans_manager unit_name.
        \<exists>out. menu_time_needed dec_float fmt_float fmt_int
          \<lparr>allowance_in = ''1000'', expenses_in = ''200'', duration_in = [], goal_in = ''5000'',
           use_interest_in = ''y'', rate_in = ''5'', save_in = [], plan_name_in = []\<rparr>
          plans_manager 1 unit_name = Some out)"
proof -
  let ?i1 = "\<lparr>allowance_in = ''300'', expenses_in = ''500'', duration_in = [], goal_in = ''1000'',
      use_interest_in = [], rate_in = [], save_in = [], plan_name_in = []\<rparr>"
  let ?i2 = "\<lparr>allowance_in = ''1000'', expenses_in = ''200'', duration_in = [], goal_in = ''5000'',
        use_interest_in = ''y'', rate_in = ''5'', save_in = [], plan_name_in = []\<rparr>"
  have r1: "read_time_inputs dec_float ?i1 = Inr (300, 500, 1000)"
    by (simp add: read_time_inputs_def input_validation_def dec_float_def sign_body_def
        digit_of_def)
  have r2: "read_time_inputs dec_float ?i2 = Inr (1000, 200, 5000)"
    by (simp add: read_time_inputs_def input_validation_def dec_float_def sign_body_def
        digit_of_def)
  have s: "simulate 1000 200 1 (5 / 100) 0 0 = Some 5" by (simp add: simulate.simps)
  show ?thesis
    using r1 r2 s
      time_needed_net_and_termination [of dec_float ?i1 300 500 1000 200 1 "5 / 100" 1000]
      time_needed_net_and_termination [of dec_float ?i2 1000 200 5000 200 1 "5 / 100" 1000]
    by simp
qed

subsection \<open>Saving a plan\<close>

text \<open>
  \<open>save_plan\<close> replaces or adds the entry of the dictionary, and appends one line to the
  file whatever the file holds; \<open>write_all_plans_to_file\<close> writes one line for each plan.
\<close>

lemma save_plan_file:
  "the_plan_txt (save_plan fmt_float fmt_int m p)
     = Some ((case the_plan_txt m of None \<Rightarrow> [] | Some ls \<Rightarrow> ls) @ [plan_line fmt_float fmt_int p])"
  by (simp add: save_plan_def write_plan_to_file_def)

lemma save_plan_plans:
  "plans (save_plan fmt_float fmt_int m p) = dict_set (name p) p (plans m)"
  by (simp add: save_plan_def write_plan_to_file_def)

lemma write_all_length:
  "map_option length (the_plan_txt (write_all_plans_to_file fmt_float fmt_int m))
     = Some (length (plans m))"
  by (simp add: write_all_plans_to_file_def)

text \<open>
  C3. \<open>save_plan\<close> stores the plan under its name, but it does not rewrite the file: it
  calls \<open>write_plan_to_file\<close>, which appends. Saving a second plan under the name
  \<open>A\<close> leaves one plan in the dictionary and two records in the file, the first of them
  stale; the rewrite that the tracker and the deletion use would leave one.
\<close>

theorem save_plan_twice_leaves_stale_record:
  "\<forall>fmt_float fmt_int.
     plans (save_plan fmt_float fmt_int
              (save_plan fmt_float fmt_int (PlansManager_init None)
                 (Plan_init ''A'' 500 300 1000 10 ''day'' 1))
              (Plan_init ''A'' 800 300 1000 5 ''day'' 1))
       = [(''A'', Plan_init ''A'' 800 300 1000 5 ''day'' 1)] \<and>
     the_plan_txt (save_plan fmt_float fmt_int
              (save_plan fmt_float fmt_int (PlansManager_init None)
                 (Plan_init ''A'' 500 300 1000 10 ''day'' 1))
              (Plan_init ''A'' 800 300 1000 5 ''day'' 1))
       = Some [plan_line fmt_float fmt_int (Plan_init ''A'' 500 300 1000 10 ''day'' 1),
               plan_line fmt_float fmt_int (Plan_init ''A'' 800 300 1000 5 ''day'' 1)] \<and>
     the_plan_txt (write_all_plans_to_file fmt_float fmt_int
            (save_plan fmt_float fmt_int
              (save_plan fmt_float fmt_int (PlansManager_init None)
                 (Plan_init ''A'' 500 300 1000 10 ''day'' 1))
              (Plan_init ''A'' 800 300 1000 5 ''day'' 1)))
       = Some [plan_line fmt_float fmt_int (Plan_init ''A'' 800 300 1000 5 ''day'' 1)]"
  by (simp add: save_plan_def write_plan_to_file_def write_all_plans_to_file_def
      PlansManager_init_def Plan_init_def)

subsection \<open>Loading the plans\<close>

text \<open>
  A missing file leaves the manager as it is, and a line that does not have nine fields is
  skipped. A line with nine fields and a number that does not convert ends the load with
  the exception, whatever follows it.
\<close>

lemma load_missing_file:
  "the_plan_txt m = None \<Longrightarrow> load_plans_from_file to_float to_int m = Inr m"
  by (simp add: load_plans_from_file_def)

lemma load_lines_skips_field_count:
  "length (split CHR ''|'' (strip line)) \<noteq> 9 \<Longrightarrow>
   load_lines to_float to_int (line # rest) ps = load_lines to_float to_int rest ps"
  by (simp add: Let_def)

lemma load_lines_aborts:
  "length (split CHR ''|'' (strip line)) = 9 \<Longrightarrow>
   plan_of_parts to_float to_int (split CHR ''|'' (strip line)) = Inl err \<Longrightarrow>
   load_lines to_float to_int (line # rest) ps = Inl err"
  by (simp add: Let_def)

text \<open>
  C4. Loading is not total on every content of the file: the first line below has nine
  fields and the allowance \<open>x\<close>, and the load ends with \<^verbatim>\<open>ValueError\<close> instead of
  skipping it and loading the second line, which loads when it stands alone.
\<close>

theorem load_aborts_on_unparseable_number:
  "load_plans_from_file dec_float dec_int
     (PlansManager_init (Some [''a|x|1|1|1|day|1|0|0'', ''b|500|300|1000|10|day|1|0|0'']))
     = Inl could_not_convert \<and>
   load_plans_from_file dec_float dec_int
     (PlansManager_init (Some [''b|500|300|1000|10|day|1|0|0'']))
     = Inr \<lparr>plans = [(''b'', Plan_init ''b'' 500 300 1000 10 ''day'' 1)],
            the_plan_txt = Some [''b|500|300|1000|10|day|1|0|0'']\<rparr>"
  by (simp add: load_plans_from_file_def PlansManager_init_def split_def strip_def is_space_def
      plan_of_parts_def dec_float_def dec_int_def sign_body_def digit_of_def Plan_init_def)

subsection \<open>The invariants of the plans\<close>











end
